theory Spec2Isabelle
  imports Main
begin

section \<open>Python values handled by the client\<close>

text \<open>
  The result of \<^verbatim>\<open>json.loads\<close>: a JSON value as Python holds it. A float is kept as
  mantissa and exponent; a dict is the list of its items in insertion order (the keys of
  a Python dict are distinct, and a lookup reads with \<^const>\<open>map_of\<close>).
\<close>

datatype json =
    JNull
  | JBool bool
  | JInt int
  | JFloat int int
  | JStr string
  | JArr "json list"
  | JObj "(string \<times> json) list"

text \<open>
  The exceptions the client can raise or let through. \<open>LavalinkError\<close> is the domain
  error of the \<^verbatim>\<open>errors\<close> module, carrying the payload it was built from;
  \<open>ClientResponseError\<close> is aiohttp's error for a response with status 400 or more;
  \<open>ExternalError\<close> stands for what a collaborator outside \<^verbatim>\<open>client.py\<close> raises
  (a malformed frame in \<^verbatim>\<open>json.loads\<close>, a failed decode in a \<^verbatim>\<open>from_payload\<close>,
  a network failure).
\<close>

datatype error =
    RuntimeError string
  | KeyError string
  | TypeError string
  | ClientResponseError nat
  | LavalinkError json
  | ExternalError string

text \<open>Python's \<^verbatim>\<open>str\<close> on an int: decimal digits, with a minus sign below zero.\<close>

fun str_nat :: "nat \<Rightarrow> string" where
  "str_nat n =
     (if n < 10 then [''0123456789'' ! n]
      else str_nat (n div 10) @ [''0123456789'' ! (n mod 10)])"

declare str_nat.simps [simp del]

definition str_int :: "int \<Rightarrow> string" where
  "str_int i = (if i < 0 then CHR ''-'' # str_nat (nat (- i)) else str_nat (nat i))"

text \<open>The port is \<^verbatim>\<open>int | str\<close>; an f-string formats it with \<^verbatim>\<open>str\<close>.\<close>

datatype port_value = PortInt int | PortStr string

fun str_port :: "port_value \<Rightarrow> string" where
  "str_port (PortInt i) = str_int i"
| "str_port (PortStr s) = s"

text \<open>
  \<^verbatim>\<open>d[k] = v\<close> on a dict kept as its item list: an existing key keeps its place, a new
  key goes to the end.
\<close>

fun dict_set :: "('k \<times> 'v) list \<Rightarrow> 'k \<Rightarrow> 'v \<Rightarrow> ('k \<times> 'v) list" where
  "dict_set [] k v = [(k, v)]"
| "dict_set ((k', v') # kvs) k v =
     (if k' = k then (k, v) # kvs else (k', v') # dict_set kvs k v)"

text \<open>
  \<^verbatim>\<open>data[key]\<close> with a string key: a dict without the key raises \<^verbatim>\<open>KeyError\<close>, every
  other JSON value raises \<^verbatim>\<open>TypeError\<close>.
\<close>

definition py_getitem :: "json \<Rightarrow> string \<Rightarrow> error + json" where
  "py_getitem data key =
     (case data of
        JObj kvs \<Rightarrow>
          (case map_of kvs key of
             None \<Rightarrow> Inl (KeyError key)
           | Some v \<Rightarrow> Inr v)
      | JArr xs \<Rightarrow> Inl (TypeError ''list indices must be integers or slices, not str'')
      | JStr s \<Rightarrow> Inl (TypeError ''string indices must be integers'')
      | JNull \<Rightarrow> Inl (TypeError ''object is not subscriptable'')
      | JBool b \<Rightarrow> Inl (TypeError ''object is not subscriptable'')
      | JInt i \<Rightarrow> Inl (TypeError ''object is not subscriptable'')
      | JFloat m e \<Rightarrow> Inl (TypeError ''object is not subscriptable''))"

text \<open>
  \<^verbatim>\<open>for p in value\<close>: a list yields its elements, a dict its keys, a string its
  characters; the other JSON values are not iterable.
\<close>

definition py_iter :: "json \<Rightarrow> error + json list" where
  "py_iter v =
     (case v of
        JArr xs \<Rightarrow> Inr xs
      | JObj kvs \<Rightarrow> Inr (map (\<lambda>kv. JStr (fst kv)) kvs)
      | JStr s \<Rightarrow> Inr (map (\<lambda>c. JStr [c]) s)
      | JNull \<Rightarrow> Inl (TypeError ''object is not iterable'')
      | JBool b \<Rightarrow> Inl (TypeError ''object is not iterable'')
      | JInt i \<Rightarrow> Inl (TypeError ''object is not iterable'')
      | JFloat m e \<Rightarrow> Inl (TypeError ''object is not iterable''))"

section \<open>The client's state\<close>

text \<open>
  \<^verbatim>\<open>aiohttp.ClientSession(headers=headers)\<close> is kept as the headers it sends with every
  request, and the context manager returned by \<^verbatim>\<open>ws_connect(url)\<close> as its URL.
\<close>

record client_session =
  headers :: "(string \<times> string) list"

record ws_context =
  ws_url :: string

text \<open>The event classes of the \<^verbatim>\<open>events\<close> module that \<^verbatim>\<open>client.py\<close> names.\<close>

datatype event_type =
    ReadyEvent
  | PlayerUpdateEvent
  | StatsEvent
  | TrackStartEvent
  | TrackEndEvent
  | TrackExceptionEvent
  | TrackStuckEvent
  | WebSocketClosedEvent

text \<open>
  An event is an instance of one of these classes; \<open>type_of\<close> is Python's
  \<^verbatim>\<open>type(event)\<close>, and the fields are whatever the class's \<^verbatim>\<open>from_payload\<close> decoded.
\<close>

datatype 'p event = Event (type_of: event_type) (payload: 'p)

text \<open>
  The fields of \<^verbatim>\<open>Lavalink.__init__\<close>. The private fields \<^verbatim>\<open>_is_ssl\<close>, \<^verbatim>\<open>_host\<close>,
  \<^verbatim>\<open>_port\<close>, \<^verbatim>\<open>_session\<close> and \<^verbatim>\<open>_websocket\<close> are written \<open>priv_...\<close>;
  \<open>None\<close> is Python's \<^verbatim>\<open>None\<close>.
\<close>

record 'cb lavalink =
  priv_is_ssl :: "bool option"
  priv_host :: "string option"
  priv_port :: "port_value option"
  priv_session :: "client_session option"
  priv_websocket :: "ws_context option"
  event_listeners :: "event_type \<rightharpoonup> 'cb list"

definition init :: "'cb lavalink" where
  "init =
     \<lparr>priv_is_ssl = None, priv_host = None, priv_port = None,
      priv_session = None, priv_websocket = None, event_listeners = Map.empty\<rparr>"

text \<open>
  What \<^verbatim>\<open>asyncio.create_task\<close> hands to the event loop: the dispatch loop, or one
  listener applied to one event. The world is the client together with the tasks
  scheduled so far, oldest first.
\<close>

datatype ('cb, 'p) task = StartListening | Listener 'cb "'p event"

record ('cb, 'p) world =
  client :: "'cb lavalink"
  scheduled :: "('cb, 'p) task list"

subsection \<open>Accessors\<close>

text \<open>
  Each property raises \<^verbatim>\<open>RuntimeError("Lavalink.connect() was not called.")\<close> while its
  field is unset. \<^verbatim>\<open>session\<close> and \<^verbatim>\<open>websocket\<close> test with \<^verbatim>\<open>not\<close>; an aiohttp
  session or context manager is always truthy, so only \<^verbatim>\<open>None\<close> takes that branch.
\<close>

definition is_ssl :: "'cb lavalink \<Rightarrow> error + bool" where
  "is_ssl s =
     (case priv_is_ssl s of
        None \<Rightarrow> Inl (RuntimeError ''Lavalink.connect() was not called.'')
      | Some b \<Rightarrow> Inr b)"

definition host :: "'cb lavalink \<Rightarrow> error + string" where
  "host s =
     (case priv_host s of
        None \<Rightarrow> Inl (RuntimeError ''Lavalink.connect() was not called.'')
      | Some h \<Rightarrow> Inr h)"

definition port :: "'cb lavalink \<Rightarrow> error + port_value" where
  "port s =
     (case priv_port s of
        None \<Rightarrow> Inl (RuntimeError ''Lavalink.connect() was not called.'')
      | Some p \<Rightarrow> Inr p)"

definition session :: "'cb lavalink \<Rightarrow> error + client_session" where
  "session s =
     (case priv_session s of
        None \<Rightarrow> Inl (RuntimeError ''Lavalink.connect() was not called.'')
      | Some se \<Rightarrow> Inr se)"

definition websocket :: "'cb lavalink \<Rightarrow> error + ws_context" where
  "websocket s =
     (case priv_websocket s of
        None \<Rightarrow> Inl (RuntimeError ''Lavalink.connect() was not called.'')
      | Some ws \<Rightarrow> Inr ws)"

subsection \<open>connect\<close>

text \<open>
  \<^verbatim>\<open>connect(host, port, password, bot_id, resume_key=None, is_ssl=False)\<close>: stores the
  three parameters, builds the headers, adds \<^verbatim>\<open>Resume-Key\<close> when \<^verbatim>\<open>resume_key\<close> is
  truthy (neither \<^verbatim>\<open>None\<close> nor the empty string), creates the session and the
  WebSocket context manager, and schedules the dispatch loop. The listener registry
  is not touched.
\<close>

definition connect ::
  "('cb, 'p) world \<Rightarrow> string \<Rightarrow> port_value \<Rightarrow> string \<Rightarrow> int \<Rightarrow> string option \<Rightarrow> bool
     \<Rightarrow> ('cb, 'p) world" where
  "connect w hst prt password bot_id resume_key ssl =
     (let hdrs0 =
            [(''Authorization'', password),
             (''User-Id'', str_int bot_id),
             (''Client-Name'', ''lava.py/0.0.0'')];
          hdrs =
            (case resume_key of
               None \<Rightarrow> hdrs0
             | Some k \<Rightarrow> if k = [] then hdrs0 else dict_set hdrs0 ''Resume-Key'' k);
          url =
            (if ssl then ''wss'' else ''ws'') @ ''://'' @ hst @ '':'' @ str_port prt
              @ ''/v3/websocket''
      in w\<lparr>client :=
             (client w)\<lparr>priv_is_ssl := Some ssl,
                         priv_host := Some hst,
                         priv_port := Some prt,
                         priv_session := Some \<lparr>headers = hdrs\<rparr>,
                         priv_websocket := Some \<lparr>ws_url = url\<rparr>\<rparr>,
           scheduled := scheduled w @ [StartListening]\<rparr>)"

subsection \<open>The listener registry\<close>

text \<open>
  \<^verbatim>\<open>dispatch(event)\<close>: when \<^verbatim>\<open>event_listeners.get(type(event))\<close> is truthy (a
  non-empty list), one task per listener is created, in the list's order; nothing is
  awaited and nothing else changes.
\<close>

definition dispatch :: "('cb, 'p) world \<Rightarrow> 'p event \<Rightarrow> ('cb, 'p) world" where
  "dispatch w ev =
     (case event_listeners (client w) (type_of ev) of
        None \<Rightarrow> w
      | Some listeners \<Rightarrow>
          if listeners = [] then w
          else w\<lparr>scheduled := scheduled w @ map (\<lambda>listener. Listener listener ev) listeners\<rparr>)"

text \<open>
  \<^verbatim>\<open>listen(event_type)\<close> returns \<^verbatim>\<open>decorator\<close>; only calling that with a callback
  changes the client: the callback is appended to the type's list, or starts it.
\<close>

definition decorator :: "event_type \<Rightarrow> 'cb \<Rightarrow> 'cb lavalink \<Rightarrow> 'cb lavalink" where
  "decorator ety callback s =
     (case event_listeners s ety of
        Some ls \<Rightarrow> s\<lparr>event_listeners := (event_listeners s)(ety \<mapsto> ls @ [callback])\<rparr>
      | None \<Rightarrow> s\<lparr>event_listeners := (event_listeners s)(ety \<mapsto> [callback])\<rparr>)"

definition listen :: "event_type \<Rightarrow> 'cb \<Rightarrow> 'cb lavalink \<Rightarrow> 'cb lavalink" where
  "listen ety = decorator ety"

subsection \<open>The dispatch loop\<close>

text \<open>
  \<^verbatim>\<open>self.dispatch(events.X.from_payload(data))\<close>. The event classes are not part of
  \<^verbatim>\<open>client.py\<close>: \<open>from_payload\<close> is a parameter, given the class and the frame, and
  may raise.
\<close>

definition build_and_dispatch ::
  "(event_type \<Rightarrow> json \<Rightarrow> error + 'p) \<Rightarrow> ('cb, 'p) world \<Rightarrow> event_type \<Rightarrow> json
     \<Rightarrow> error + ('cb, 'p) world" where
  "build_and_dispatch from_payload w ety data =
     (case from_payload ety data of
        Inl e \<Rightarrow> Inl e
      | Inr p \<Rightarrow> Inr (dispatch w (Event ety p)))"

text \<open>
  The body of the loop for one decoded frame, in the source's order of tests. A
  comparison \<^verbatim>\<open>data["op"] == "ready"\<close> with a value that is not that string is false,
  whatever the value's type. An exception leaves the world as it was: every raise of the
  body comes before its one \<^verbatim>\<open>dispatch\<close>.
\<close>

definition process_frame ::
  "(event_type \<Rightarrow> json \<Rightarrow> error + 'p) \<Rightarrow> ('cb, 'p) world \<Rightarrow> json
     \<Rightarrow> error + ('cb, 'p) world" where
  "process_frame from_payload w data =
     (case py_getitem data ''op'' of
        Inl e \<Rightarrow> Inl e
      | Inr opv \<Rightarrow>
          if opv = JStr ''ready'' then build_and_dispatch from_payload w ReadyEvent data
          else if opv = JStr ''playerUpdate'' then
            build_and_dispatch from_payload w PlayerUpdateEvent data
          else if opv = JStr ''stats'' then build_and_dispatch from_payload w StatsEvent data
          else if opv = JStr ''event'' then
            (case py_getitem data ''type'' of
               Inl e \<Rightarrow> Inl e
             | Inr tyv \<Rightarrow>
                 if tyv = JStr ''TrackStartEvent'' then
                   build_and_dispatch from_payload w TrackStartEvent data
                 else if tyv = JStr ''TrackEndEvent'' then
                   build_and_dispatch from_payload w TrackEndEvent data
                 else if tyv = JStr ''TrackExceptionEvent'' then
                   build_and_dispatch from_payload w TrackExceptionEvent data
                 else if tyv = JStr ''TrackStuckEvent'' then
                   build_and_dispatch from_payload w TrackStuckEvent data
                 else if tyv = JStr ''WebSocketClosedEvent'' then
                   build_and_dispatch from_payload w WebSocketClosedEvent data
                 else Inr w)
          else Inr w)"

text \<open>
  \<^verbatim>\<open>async for msg in ws\<close> over the messages the socket delivers before it closes.
  \<open>loads\<close> is \<^verbatim>\<open>json.loads(msg.data)\<close>. The result is the world when the loop stops
  and the exception that stopped it, if any; tasks scheduled for earlier frames stay
  scheduled. \<open>start_listening\<close> is \<^verbatim>\<open>_start_listening\<close>: it reads the
  \<^verbatim>\<open>websocket\<close> property first, and the messages are those that arrive once the
  handshake has succeeded.
\<close>

fun listen_loop ::
  "('m \<Rightarrow> error + json) \<Rightarrow> (event_type \<Rightarrow> json \<Rightarrow> error + 'p) \<Rightarrow> ('cb, 'p) world \<Rightarrow> 'm list
     \<Rightarrow> ('cb, 'p) world \<times> error option" where
  "listen_loop loads from_payload w [] = (w, None)"
| "listen_loop loads from_payload w (msg # msgs) =
     (case loads msg of
        Inl e \<Rightarrow> (w, Some e)
      | Inr data \<Rightarrow>
          (case process_frame from_payload w data of
             Inl e \<Rightarrow> (w, Some e)
           | Inr w' \<Rightarrow> listen_loop loads from_payload w' msgs))"

definition start_listening ::
  "('m \<Rightarrow> error + json) \<Rightarrow> (event_type \<Rightarrow> json \<Rightarrow> error + 'p) \<Rightarrow> ('cb, 'p) world \<Rightarrow> 'm list
     \<Rightarrow> ('cb, 'p) world \<times> error option" where
  "start_listening loads from_payload w msgs =
     (case websocket (client w) of
        Inl e \<Rightarrow> (w, Some e)
      | Inr ws \<Rightarrow> listen_loop loads from_payload w msgs)"

subsection \<open>REST\<close>

text \<open>
  A request as the session sends it, and a response as \<^verbatim>\<open>get\<close> reads it: the status
  and the outcome of \<^verbatim>\<open>await res.json()\<close>. aiohttp defines \<^verbatim>\<open>res.ok\<close> as
  \<^verbatim>\<open>400 > status\<close>, and \<^verbatim>\<open>res.raise_for_status()\<close> raises \<^verbatim>\<open>ClientResponseError\<close>
  when the response is not ok and returns \<^verbatim>\<open>None\<close> otherwise.
\<close>

record request =
  req_method :: string
  req_url :: string
  req_headers :: "(string \<times> string) list"

record response =
  res_status :: nat
  res_json :: "error + json"

definition res_ok :: "response \<Rightarrow> bool" where
  "res_ok res = (res_status res < 400)"

definition raise_for_status :: "response \<Rightarrow> error + unit" where
  "raise_for_status res =
     (if \<not> res_ok res then Inl (ClientResponseError (res_status res)) else Inr ())"

text \<open>
  The request of \<^verbatim>\<open>self.session.get(f"...")\<close>: the session first, then the f-string's
  \<^verbatim>\<open>is_ssl\<close>, \<^verbatim>\<open>host\<close> and \<^verbatim>\<open>port\<close>, each of which raises when unset.
\<close>

definition get_request :: "'cb lavalink \<Rightarrow> string \<Rightarrow> error + request" where
  "get_request s path =
     (case session s of
        Inl e \<Rightarrow> Inl e
      | Inr se \<Rightarrow>
          (case is_ssl s of
             Inl e \<Rightarrow> Inl e
           | Inr ssl \<Rightarrow>
               (case host s of
                  Inl e \<Rightarrow> Inl e
                | Inr h \<Rightarrow>
                    (case port s of
                       Inl e \<Rightarrow> Inl e
                     | Inr p \<Rightarrow>
                         Inr \<lparr>req_method = ''GET'',
                              req_url =
                                (if ssl then ''http'' else ''https'') @ ''://'' @ h @ '':''
                                  @ str_port p @ ''/v3/'' @ path @ ''&trace=true'',
                              req_headers = headers se\<rparr>))))"

text \<open>
  \<^verbatim>\<open>get(path)\<close>. \<open>http\<close> is the transport (it may fail), \<open>error_from_payload\<close> is
  \<^verbatim>\<open>errors.LavalinkError.from_payload\<close>, which returns the exception object or raises.
  In \<^verbatim>\<open>raise A from B\<close> Python evaluates \<^verbatim>\<open>A\<close>, then \<^verbatim>\<open>B\<close>, and only then raises
  \<^verbatim>\<open>A\<close>; here \<^verbatim>\<open>B\<close> is the call \<^verbatim>\<open>res.raise_for_status()\<close>.
\<close>

definition get ::
  "(request \<Rightarrow> error + response) \<Rightarrow> (json \<Rightarrow> error + error) \<Rightarrow> 'cb lavalink \<Rightarrow> string
     \<Rightarrow> error + json" where
  "get http error_from_payload s path =
     (case get_request s path of
        Inl e \<Rightarrow> Inl e
      | Inr rq \<Rightarrow>
          (case http rq of
             Inl e \<Rightarrow> Inl e
           | Inr res \<Rightarrow>
               (case res_json res of
                  Inl e \<Rightarrow> Inl e
                | Inr data \<Rightarrow>
                    if \<not> res_ok res then
                      (case error_from_payload data of
                         Inl e \<Rightarrow> Inl e
                       | Inr exc \<Rightarrow>
                           (case raise_for_status res of
                              Inl e \<Rightarrow> Inl e
                            | Inr cause \<Rightarrow> Inl exc))
                    else Inr data)))"

text \<open>
  The list comprehension of \<^verbatim>\<open>get_players\<close>: \<^verbatim>\<open>Player.from_payload\<close> on each item in
  turn; the first raise ends the whole comprehension.
\<close>

fun decode_all :: "(json \<Rightarrow> error + 'pl) \<Rightarrow> json list \<Rightarrow> error + 'pl list" where
  "decode_all player_from_payload [] = Inr []"
| "decode_all player_from_payload (p # ps) =
     (case player_from_payload p of
        Inl e \<Rightarrow> Inl e
      | Inr x \<Rightarrow>
          (case decode_all player_from_payload ps of
             Inl e \<Rightarrow> Inl e
           | Inr xs \<Rightarrow> Inr (x # xs)))"

definition get_players ::
  "(request \<Rightarrow> error + response) \<Rightarrow> (json \<Rightarrow> error + error) \<Rightarrow> (json \<Rightarrow> error + 'pl)
     \<Rightarrow> 'cb lavalink \<Rightarrow> string \<Rightarrow> error + 'pl list" where
  "get_players http error_from_payload player_from_payload s session_id =
     (case get http error_from_payload s (''sessions/'' @ session_id @ ''/players'') of
        Inl e \<Rightarrow> Inl e
      | Inr body \<Rightarrow>
          (case py_iter body of
             Inl e \<Rightarrow> Inl e
           | Inr items \<Rightarrow> decode_all player_from_payload items))"

section \<open>Collaborators and inputs used at concrete points\<close>

text \<open>
  Modelled from the spec: \<^verbatim>\<open>errors.LavalinkError.from_payload\<close> is not among the
  sources; the spec describes it as the factory of a domain error carrying the server's
  payload. The operations take the factory as a parameter; this one is what they are
  evaluated with.
\<close>

definition LavalinkError_from_payload :: "json \<Rightarrow> error + error" where
  "LavalinkError_from_payload data = Inr (LavalinkError data)"

text \<open>
  \<^verbatim>\<open>models.Player.from_payload\<close> is not among the sources and is a parameter of
  \<open>get_players\<close>. This sample argument keeps the player's \<^verbatim>\<open>guildId\<close> and fails on
  anything without one, as a decoder reading \<^verbatim>\<open>payload["guildId"]\<close> does.
\<close>

definition sample_player_from_payload :: "json \<Rightarrow> error + string" where
  "sample_player_from_payload p =
     (case py_getitem p ''guildId'' of
        Inl e \<Rightarrow> Inl e
      | Inr g \<Rightarrow> (case g of JStr gid \<Rightarrow> Inr gid | _ \<Rightarrow> Inl (ExternalError ''guildId'')))"

text \<open>
  The event classes' \<^verbatim>\<open>from_payload\<close> are not among the sources and are a parameter of
  the loop. This sample argument keeps the whole frame as the event's fields and never
  fails.
\<close>

definition keep_frame :: "event_type \<Rightarrow> json \<Rightarrow> error + json" where
  "keep_frame ety data = Inr data"

text \<open>
  A client after \<^verbatim>\<open>connect("h", 80, "p", 1)\<close>, and four servers: one answering 404 with
  a JSON error body, one answering 200 with an object that wraps the player list, one
  answering 200 with the list itself, and one whose list holds a player that does not
  decode.
\<close>

definition connected_example :: "nat lavalink" where
  "connected_example =
     client (connect \<lparr>client = init, scheduled = ([] :: (nat, json) task list)\<rparr>
               ''h'' (PortInt 80) ''p'' 1 None False)"

definition not_found_server :: "request \<Rightarrow> error + response" where
  "not_found_server rq =
     Inr \<lparr>res_status = 404, res_json = Inr (JObj [(''error'', JStr ''Not Found'')])\<rparr>"

definition players_object_server :: "request \<Rightarrow> error + response" where
  "players_object_server rq =
     Inr \<lparr>res_status = 200,
          res_json = Inr (JObj [(''players'', JArr [JObj [(''guildId'', JStr ''1'')],
                                                     JObj [(''guildId'', JStr ''2'')]])])\<rparr>"

definition players_array_server :: "request \<Rightarrow> error + response" where
  "players_array_server rq =
     Inr \<lparr>res_status = 200,
          res_json = Inr (JArr [JObj [(''guildId'', JStr ''1'')],
                                JObj [(''guildId'', JStr ''2'')]])\<rparr>"

definition players_mixed_server :: "request \<Rightarrow> error + response" where
  "players_mixed_server rq =
     Inr \<lparr>res_status = 200,
          res_json = Inr (JArr [JObj [(''guildId'', JStr ''1'')],
                                JObj [(''guildId'', JInt 2)]])\<rparr>"

section \<open>Evaluation lemmas\<close>

lemma str_int_80: "str_int 80 = ''80''"
  by (simp add: str_int_def str_nat.simps)

lemma str_int_1: "str_int 1 = ''1''"
  by (simp add: str_int_def str_nat.simps)

lemma connected_example_eq:
  "connected_example =
     \<lparr>priv_is_ssl = Some False, priv_host = Some ''h'', priv_port = Some (PortInt 80),
      priv_session =
        Some \<lparr>headers = [(''Authorization'', ''p''), (''User-Id'', ''1''),
                           (''Client-Name'', ''lava.py/0.0.0'')]\<rparr>,
      priv_websocket = Some \<lparr>ws_url = ''ws://h:80/v3/websocket''\<rparr>,
      event_listeners = Map.empty\<rparr>"
  by (simp add: connected_example_def connect_def init_def str_int_80 str_int_1)

lemma get_404_example:
  "get not_found_server LavalinkError_from_payload connected_example ''sessions/abc/players'' =
     Inl (ClientResponseError 404)"
  by (simp add: get_def get_request_def session_def is_ssl_def host_def port_def
      connected_example_eq not_found_server_def LavalinkError_from_payload_def res_ok_def
      raise_for_status_def)

lemma get_mixed_example:
  "get players_mixed_server LavalinkError_from_payload connected_example ''sessions/abc/players''
     = Inr (JArr [JObj [(''guildId'', JStr ''1'')], JObj [(''guildId'', JInt 2)]])"
  by (simp add: get_def get_request_def session_def is_ssl_def host_def port_def
      connected_example_eq players_mixed_server_def res_ok_def)

lemma get_array_example:
  "get players_array_server LavalinkError_from_payload connected_example ''sessions/abc/players''
     = Inr (JArr [JObj [(''guildId'', JStr ''1'')], JObj [(''guildId'', JStr ''2'')]])"
  by (simp add: get_def get_request_def session_def is_ssl_def host_def port_def
      connected_example_eq players_array_server_def res_ok_def)

lemma sample_player_examples:
  "sample_player_from_payload (JObj [(''guildId'', JStr ''1'')]) = Inr ''1''"
  "sample_player_from_payload (JObj [(''guildId'', JStr ''2'')]) = Inr ''2''"
  "sample_player_from_payload (JObj [(''guildId'', JInt 2)]) = Inl (ExternalError ''guildId'')"
  by (simp_all add: sample_player_from_payload_def py_getitem_def)

section \<open>Accessors before connect\<close>

text \<open>
  C5. Each of the five accessors raises the not-connected error
  \<^verbatim>\<open>RuntimeError("Lavalink.connect() was not called.")\<close> while its field is unset, and
  a freshly constructed client has all five unset; an accessor never returns a null
  or default value.
\<close>

theorem accessors_raise_before_connect:
  "(priv_is_ssl s = None \<longrightarrow> is_ssl s = Inl (RuntimeError ''Lavalink.connect() was not called.''))
   \<and> (priv_host s = None \<longrightarrow> host s = Inl (RuntimeError ''Lavalink.connect() was not called.''))
   \<and> (priv_port s = None \<longrightarrow> port s = Inl (RuntimeError ''Lavalink.connect() was not called.''))
   \<and> (priv_session s = None \<longrightarrow> session s = Inl (RuntimeError ''Lavalink.connect() was not called.''))
   \<and> (priv_websocket s = None \<longrightarrow> websocket s = Inl (RuntimeError ''Lavalink.connect() was not called.''))
   \<and> priv_is_ssl (init :: 'cb lavalink) = None
   \<and> priv_host (init :: 'cb lavalink) = None
   \<and> priv_port (init :: 'cb lavalink) = None
   \<and> priv_session (init :: 'cb lavalink) = None
   \<and> priv_websocket (init :: 'cb lavalink) = None"
  by (simp add: is_ssl_def host_def port_def session_def websocket_def init_def)

theorem accessors_raise_before_connect_witness:
  "is_ssl (init :: nat lavalink) = Inl (RuntimeError ''Lavalink.connect() was not called.'')
   \<and> host (init :: nat lavalink) = Inl (RuntimeError ''Lavalink.connect() was not called.'')
   \<and> port (init :: nat lavalink) = Inl (RuntimeError ''Lavalink.connect() was not called.'')
   \<and> session (init :: nat lavalink) = Inl (RuntimeError ''Lavalink.connect() was not called.'')
   \<and> websocket (init :: nat lavalink) = Inl (RuntimeError ''Lavalink.connect() was not called.'')"
  using accessors_raise_before_connect [of "init :: nat lavalink"]
  by (simp add: init_def)

section \<open>connect\<close>

text \<open>
  C2. For every call of \<^verbatim>\<open>connect\<close>, the WebSocket URL is the scheme, \<^verbatim>\<open>://\<close>, the
  host, \<^verbatim>\<open>:\<close>, the port and \<^verbatim>\<open>/v3/websocket\<close>, with scheme \<^verbatim>\<open>wss\<close> exactly when
  \<^verbatim>\<open>is_ssl\<close>; the session headers are exactly \<^verbatim>\<open>Authorization\<close> (the password),
  \<^verbatim>\<open>User-Id\<close> (\<^verbatim>\<open>str(bot_id)\<close>) and \<^verbatim>\<open>Client-Name\<close>, followed by \<^verbatim>\<open>Resume-Key\<close>
  only when a resume key was passed; and host \<^verbatim>\<open>h\<close>, port 80 without SSL give
  \<^verbatim>\<open>ws://h:80/v3/websocket\<close>.
\<close>

theorem connect_websocket_and_headers:
  "priv_websocket (client (connect w h p password bot_id resume_key ssl)) =
     Some \<lparr>ws_url = (if ssl then ''wss'' else ''ws'') @ ''://'' @ h @ '':'' @ str_port p
                       @ ''/v3/websocket''\<rparr>
   \<and> priv_session (client (connect w h p password bot_id resume_key ssl)) =
     Some \<lparr>headers =
             [(''Authorization'', password), (''User-Id'', str_int bot_id),
              (''Client-Name'', ''lava.py/0.0.0'')]
             @ (case resume_key of
                  None \<Rightarrow> []
                | Some k \<Rightarrow> if k = [] then [] else [(''Resume-Key'', k)])\<rparr>
   \<and> priv_websocket (client (connect w ''h'' (PortInt 80) password bot_id resume_key False)) =
     Some \<lparr>ws_url = ''ws://h:80/v3/websocket''\<rparr>
   \<and> websocket (client (connect w h p password bot_id resume_key ssl)) =
     Inr \<lparr>ws_url = (if ssl then ''wss'' else ''ws'') @ ''://'' @ h @ '':'' @ str_port p
                       @ ''/v3/websocket''\<rparr>"
  by (simp add: connect_def websocket_def str_int_80 split: option.splits)

text \<open>
  C9. The session has a \<^verbatim>\<open>Resume-Key\<close> header exactly when \<^verbatim>\<open>resume_key\<close> is truthy,
  and then its value is the key; \<^verbatim>\<open>connect\<close> with the empty string does exactly what
  \<^verbatim>\<open>connect\<close> with \<^verbatim>\<open>None\<close> does.
\<close>

theorem resume_key_header_iff_truthy:
  "map_option (\<lambda>se. map_of (headers se) ''Resume-Key'')
     (priv_session (client (connect w h p password bot_id resume_key ssl))) =
     Some (case resume_key of None \<Rightarrow> None | Some k \<Rightarrow> if k = [] then None else Some k)
   \<and> connect w h p password bot_id (Some []) ssl = connect w h p password bot_id None ssl"
  by (simp add: connect_def split: option.splits)

section \<open>Dispatch\<close>

text \<open>
  C3. For every event and every registry, \<^verbatim>\<open>dispatch\<close> appends to the scheduled tasks
  one task per callback registered for the event's type, in the registry's order, and
  changes nothing else of the world: no listener is run or awaited. With no callback
  registered for the type (no entry, or an empty list) the world is unchanged. The
  registry's order is the order of registration: the decorator appends.
\<close>

theorem dispatch_schedules_each_listener_once:
  "scheduled (dispatch w ev) =
     scheduled w @ map (\<lambda>cb. Listener cb ev)
       (case event_listeners (client w) (type_of ev) of None \<Rightarrow> [] | Some ls \<Rightarrow> ls)
   \<and> client (dispatch w ev) = client w
   \<and> (event_listeners (client w) (type_of ev) = None \<longrightarrow> dispatch w ev = w)
   \<and> (event_listeners (client w) (type_of ev) = Some [] \<longrightarrow> dispatch w ev = w)
   \<and> event_listeners (listen ety cb s) ety =
       Some ((case event_listeners s ety of None \<Rightarrow> [] | Some ls \<Rightarrow> ls) @ [cb])"
  by (simp add: dispatch_def listen_def decorator_def split: option.splits)

text \<open>
  The theorem at a fresh client, and at a client with two \<^verbatim>\<open>ReadyEvent\<close> listeners
  registered around a \<^verbatim>\<open>StatsEvent\<close> one.
\<close>

theorem dispatch_schedules_each_listener_once_witness:
  "dispatch \<lparr>client = (init :: nat lavalink), scheduled = [StartListening]\<rparr> (Event ReadyEvent JNull)
     = \<lparr>client = init, scheduled = [StartListening]\<rparr>
   \<and> scheduled (dispatch \<lparr>client = listen ReadyEvent 8 (listen StatsEvent 5 (listen ReadyEvent (7::nat) init)),
                 scheduled = [StartListening]\<rparr> (Event ReadyEvent JNull))
     = [StartListening, Listener 7 (Event ReadyEvent JNull), Listener 8 (Event ReadyEvent JNull)]"
  using dispatch_schedules_each_listener_once
          [of "\<lparr>client = (init :: nat lavalink), scheduled = [StartListening]\<rparr>" "Event ReadyEvent JNull"
              ReadyEvent 7 init]
        dispatch_schedules_each_listener_once
          [of "\<lparr>client = listen ReadyEvent 8 (listen StatsEvent 5 (listen ReadyEvent (7::nat) init)),
                 scheduled = [StartListening]\<rparr>" "Event ReadyEvent JNull" ReadyEvent 7 init]
  by (simp add: init_def listen_def decorator_def)

section \<open>The dispatch loop\<close>

text \<open>The client, and with it the registry, is the same after each step of the loop.\<close>

lemma dispatch_client: "client (dispatch w ev) = client w"
  by (simp add: dispatch_def split: option.splits)

lemma build_and_dispatch_client:
  "build_and_dispatch from_payload w ety data = Inr w' \<Longrightarrow> client w' = client w"
  by (auto simp: build_and_dispatch_def dispatch_client split: sum.splits)

lemma process_frame_client:
  "process_frame from_payload w data = Inr w' \<Longrightarrow> client w' = client w"
  by (auto simp: process_frame_def split: sum.splits if_splits dest: build_and_dispatch_client)

lemma listen_loop_client:
  "client (fst (listen_loop loads from_payload w msgs)) = client w"
proof (induction msgs arbitrary: w)
  case Nil
  show ?case by simp
next
  case (Cons msg msgs)
  show ?case
  proof (cases "loads msg")
    case (Inl e)
    then show ?thesis by simp
  next
    case (Inr data)
    show ?thesis
    proof (cases "process_frame from_payload w data")
      case (Inl e)
      with Inr show ?thesis by simp
    next
      case r: (Inr w')
      have "client w' = client w" using r by (rule process_frame_client)
      with Inr r Cons.IH [of w'] show ?thesis by simp
    qed
  qed
qed

text \<open>
  C4. A frame whose \<^verbatim>\<open>op\<close> is \<^verbatim>\<open>event\<close> and whose \<^verbatim>\<open>type\<close> is present but none of
  the five sub-event names, and a frame whose \<^verbatim>\<open>op\<close> is present but none of
  \<^verbatim>\<open>ready\<close>, \<^verbatim>\<open>playerUpdate\<close>, \<^verbatim>\<open>stats\<close>, \<^verbatim>\<open>event\<close>, leave the world as it was (no
  event is built, no task is scheduled) and raise nothing: the loop goes on with the
  next message.
\<close>

theorem unknown_frames_dropped:
  "(py_getitem data ''op'' = Inr (JStr ''event'') \<and> py_getitem data ''type'' = Inr tyv
      \<and> tyv \<noteq> JStr ''TrackStartEvent'' \<and> tyv \<noteq> JStr ''TrackEndEvent''
      \<and> tyv \<noteq> JStr ''TrackExceptionEvent'' \<and> tyv \<noteq> JStr ''TrackStuckEvent''
      \<and> tyv \<noteq> JStr ''WebSocketClosedEvent''
    \<or> py_getitem data ''op'' = Inr opv
      \<and> opv \<noteq> JStr ''ready'' \<and> opv \<noteq> JStr ''playerUpdate''
      \<and> opv \<noteq> JStr ''stats'' \<and> opv \<noteq> JStr ''event'')
   \<Longrightarrow> process_frame from_payload w data = Inr w
       \<and> (loads msg = Inr data \<longrightarrow>
            listen_loop loads from_payload w (msg # msgs) = listen_loop loads from_payload w msgs)"
  by (auto simp: process_frame_def)

text \<open>
  The theorem at a frame with the unknown type \<^verbatim>\<open>TrackPausedEvent\<close> and at a frame with
  the unknown op \<^verbatim>\<open>pong\<close>; the loop drops both kinds and still serves the
  \<^verbatim>\<open>TrackStartEvent\<close> that follows.
\<close>

theorem unknown_frames_dropped_witness:
  "process_frame keep_frame
      \<lparr>client = listen TrackStartEvent (3::nat) init, scheduled = []\<rparr>
      (JObj [(''op'', JStr ''event''), (''type'', JStr ''TrackPausedEvent'')])
     = Inr \<lparr>client = listen TrackStartEvent 3 init, scheduled = []\<rparr>
   \<and> process_frame keep_frame
      \<lparr>client = listen TrackStartEvent (3::nat) init, scheduled = []\<rparr>
      (JObj [(''op'', JStr ''pong'')])
     = Inr \<lparr>client = listen TrackStartEvent 3 init, scheduled = []\<rparr>
   \<and> listen_loop Inr keep_frame
      \<lparr>client = listen TrackStartEvent (3::nat) init, scheduled = []\<rparr>
      [JObj [(''op'', JStr ''event''), (''type'', JStr ''TrackPausedEvent'')],
       JObj [(''op'', JInt 4)],
       JObj [(''op'', JStr ''event''), (''type'', JStr ''TrackStartEvent'')]]
     = (\<lparr>client = listen TrackStartEvent 3 init,
         scheduled = [Listener 3 (Event TrackStartEvent
            (JObj [(''op'', JStr ''event''), (''type'', JStr ''TrackStartEvent'')]))]\<rparr>, None)"
  using unknown_frames_dropped
          [of "JObj [(''op'', JStr ''event''), (''type'', JStr ''TrackPausedEvent'')]"
              "JStr ''TrackPausedEvent''" "JStr ''event''" keep_frame
              "\<lparr>client = listen TrackStartEvent (3::nat) init, scheduled = []\<rparr>" Inr
              "JObj [(''op'', JStr ''event''), (''type'', JStr ''TrackPausedEvent'')]"
              "[JObj [(''op'', JInt 4)],
                JObj [(''op'', JStr ''event''), (''type'', JStr ''TrackStartEvent'')]]"]
        unknown_frames_dropped
          [of "JObj [(''op'', JStr ''pong'')]"
              "JNull" "JStr ''pong''" keep_frame
              "\<lparr>client = listen TrackStartEvent (3::nat) init, scheduled = []\<rparr>" Inr
              "JObj [(''op'', JStr ''pong'')]" "[]"]
  by (simp add: py_getitem_def process_frame_def build_and_dispatch_def dispatch_def
      keep_frame_def listen_def decorator_def init_def)

text \<open>
  C8. A JSON object without the key \<^verbatim>\<open>op\<close>, and one whose \<^verbatim>\<open>op\<close> is \<^verbatim>\<open>event\<close> and
  which has no key \<^verbatim>\<open>type\<close>, raise \<^verbatim>\<open>KeyError\<close> for that key; the loop stops with
  that exception and reads no further message.
\<close>

theorem missing_key_stops_loop:
  "(data = JObj kvs \<and> map_of kvs ''op'' = None \<longrightarrow>
      process_frame from_payload w data = Inl (KeyError ''op'')
      \<and> (loads msg = Inr data \<longrightarrow>
           listen_loop loads from_payload w (msg # msgs) = (w, Some (KeyError ''op''))))
   \<and> (data = JObj kvs \<and> map_of kvs ''op'' = Some (JStr ''event'') \<and> map_of kvs ''type'' = None \<longrightarrow>
      process_frame from_payload w data = Inl (KeyError ''type'')
      \<and> (loads msg = Inr data \<longrightarrow>
           listen_loop loads from_payload w (msg # msgs) = (w, Some (KeyError ''type''))))"
  by (simp add: process_frame_def py_getitem_def)

text \<open>The theorem at two such frames, each followed by a \<^verbatim>\<open>ready\<close> frame that is never served.\<close>

theorem missing_key_stops_loop_witness:
  "listen_loop Inr keep_frame \<lparr>client = listen ReadyEvent (3::nat) init, scheduled = []\<rparr>
      [JObj [(''type'', JStr ''TrackStartEvent'')], JObj [(''op'', JStr ''ready'')]]
     = (\<lparr>client = listen ReadyEvent 3 init, scheduled = []\<rparr>, Some (KeyError ''op''))
   \<and> listen_loop Inr keep_frame \<lparr>client = listen ReadyEvent (3::nat) init, scheduled = []\<rparr>
      [JObj [(''op'', JStr ''event'')], JObj [(''op'', JStr ''ready'')]]
     = (\<lparr>client = listen ReadyEvent 3 init, scheduled = []\<rparr>, Some (KeyError ''type''))"
  using missing_key_stops_loop
          [of "JObj [(''type'', JStr ''TrackStartEvent'')]" "[(''type'', JStr ''TrackStartEvent'')]"
              keep_frame "\<lparr>client = listen ReadyEvent (3::nat) init, scheduled = []\<rparr>" Inr
              "JObj [(''type'', JStr ''TrackStartEvent'')]" "[JObj [(''op'', JStr ''ready'')]]"]
        missing_key_stops_loop
          [of "JObj [(''op'', JStr ''event'')]" "[(''op'', JStr ''event'')]"
              keep_frame "\<lparr>client = listen ReadyEvent (3::nat) init, scheduled = []\<rparr>" Inr
              "JObj [(''op'', JStr ''event'')]" "[JObj [(''op'', JStr ''ready'')]]"]
  by simp

text \<open>
  C10. \<^verbatim>\<open>dispatch\<close>, one step of the loop, the whole loop over any messages (however it
  ends) and \<^verbatim>\<open>connect\<close> leave \<^verbatim>\<open>event_listeners\<close> as it was; the function returned by
  \<^verbatim>\<open>listen\<close> does change it, by appending the callback to the list of its type.
\<close>

theorem registry_changed_only_by_decorator:
  "event_listeners (client (dispatch w ev)) = event_listeners (client w)
   \<and> event_listeners (client (fst (listen_loop loads from_payload w msgs))) =
       event_listeners (client w)
   \<and> event_listeners (client (fst (start_listening loads from_payload w msgs))) =
       event_listeners (client w)
   \<and> event_listeners (client (case process_frame from_payload w data of
                                 Inl e \<Rightarrow> w | Inr w' \<Rightarrow> w')) = event_listeners (client w)
   \<and> event_listeners (client (connect w h p password bot_id resume_key ssl)) =
       event_listeners (client w)
   \<and> event_listeners (listen ety cb s) \<noteq> event_listeners s
   \<and> event_listeners (decorator ety cb s) =
       (event_listeners s)
         (ety \<mapsto> (case event_listeners s ety of None \<Rightarrow> [] | Some ls \<Rightarrow> ls) @ [cb])"
proof -
  have d: "event_listeners (client (dispatch w ev)) = event_listeners (client w)"
    by (simp add: dispatch_client)
  have l: "event_listeners (client (fst (listen_loop loads from_payload w msgs))) =
       event_listeners (client w)"
    by (simp add: listen_loop_client)
  have sl: "event_listeners (client (fst (start_listening loads from_payload w msgs))) =
       event_listeners (client w)"
    by (simp add: start_listening_def listen_loop_client split: sum.splits)
  have pf: "event_listeners (client (case process_frame from_payload w data of
                                 Inl e \<Rightarrow> w | Inr w' \<Rightarrow> w')) = event_listeners (client w)"
    by (simp add: process_frame_client split: sum.splits)
  have c: "event_listeners (client (connect w h p password bot_id resume_key ssl)) =
       event_listeners (client w)"
    by (simp add: connect_def Let_def)
  have dec: "event_listeners (decorator ety cb s) =
       (event_listeners s)
         (ety \<mapsto> (case event_listeners s ety of None \<Rightarrow> [] | Some ls \<Rightarrow> ls) @ [cb])"
    by (simp add: decorator_def split: option.splits)
  have "event_listeners (decorator ety cb s) ety \<noteq> event_listeners s ety"
    by (simp add: dec split: option.splits)
  then have ne: "event_listeners (listen ety cb s) \<noteq> event_listeners s"
    unfolding listen_def by metis
  from d l sl pf c ne dec show ?thesis by blast
qed

section \<open>REST requests\<close>

text \<open>
  C1 (as amended). For every connected client and every path, \<^verbatim>\<open>get(path)\<close> sends one GET
  carrying the session's headers to a URL made of the scheme, \<^verbatim>\<open>://\<close>, the host,
  \<^verbatim>\<open>:\<close>, the port, \<^verbatim>\<open>/v3/\<close> and the path, followed by one separator character and
  the trace flag \<^verbatim>\<open>trace=true\<close>; the scheme is \<^verbatim>\<open>http\<close> when \<^verbatim>\<open>is_ssl\<close> is true
  and \<^verbatim>\<open>https\<close> otherwise. Which character separates the flag from the path is left
  open. The outcome of \<^verbatim>\<open>get\<close> depends on the transport only through its answer to
  that request.
\<close>

theorem get_request_url:
  "priv_session s = Some se \<Longrightarrow> priv_is_ssl s = Some ssl \<Longrightarrow> priv_host s = Some h \<Longrightarrow>
   priv_port s = Some p \<Longrightarrow>
   \<exists>rq sep.
     get_request s path = Inr rq
     \<and> req_method rq = ''GET''
     \<and> req_headers rq = headers se
     \<and> req_url rq =
         (if ssl then ''http'' else ''https'') @ ''://'' @ h @ '':'' @ str_port p
           @ ''/v3/'' @ path @ sep @ ''trace=true''
     \<and> length sep = 1
     \<and> get http error_from_payload s path =
         (case http rq of
            Inl e \<Rightarrow> Inl e
          | Inr res \<Rightarrow> get (\<lambda>rq. Inr res) error_from_payload s path)"
proof -
  assume fields: "priv_session s = Some se" "priv_is_ssl s = Some ssl" "priv_host s = Some h"
    "priv_port s = Some p"
  define rq where
    "rq = \<lparr>req_method = ''GET'',
           req_url = (if ssl then ''http'' else ''https'') @ ''://'' @ h @ '':'' @ str_port p
                       @ ''/v3/'' @ path @ ''&'' @ ''trace=true'',
           req_headers = headers se\<rparr>"
  have built: "get_request s path = Inr rq"
    using fields by (simp add: rq_def get_request_def session_def is_ssl_def host_def port_def)
  have issued: "get http error_from_payload s path =
         (case http rq of
            Inl e \<Rightarrow> Inl e
          | Inr res \<Rightarrow> get (\<lambda>rq. Inr res) error_from_payload s path)"
    by (simp add: get_def built split: sum.splits)
  have "get_request s path = Inr rq
     \<and> req_method rq = ''GET''
     \<and> req_headers rq = headers se
     \<and> req_url rq =
         (if ssl then ''http'' else ''https'') @ ''://'' @ h @ '':'' @ str_port p
           @ ''/v3/'' @ path @ ''&'' @ ''trace=true''
     \<and> length ''&'' = 1
     \<and> get http error_from_payload s path =
         (case http rq of
            Inl e \<Rightarrow> Inl e
          | Inr res \<Rightarrow> get (\<lambda>rq. Inr res) error_from_payload s path)"
    using built issued by (simp add: rq_def)
  then show ?thesis by blast
qed

text \<open>The theorem at the connected example and the path \<^verbatim>\<open>sessions/abc/players\<close>.\<close>

theorem get_request_url_witness:
  "\<exists>rq sep.
     get_request connected_example ''sessions/abc/players'' = Inr rq
     \<and> req_method rq = ''GET''
     \<and> req_headers rq =
         [(''Authorization'', ''p''), (''User-Id'', ''1''), (''Client-Name'', ''lava.py/0.0.0'')]
     \<and> req_url rq = ''https://h:80/v3/sessions/abc/players'' @ sep @ ''trace=true''
     \<and> length sep = 1"
proof -
  have fields:
    "priv_session connected_example =
       Some \<lparr>headers = [(''Authorization'', ''p''), (''User-Id'', ''1''),
                         (''Client-Name'', ''lava.py/0.0.0'')]\<rparr>"
    "priv_is_ssl connected_example = Some False"
    "priv_host connected_example = Some ''h''"
    "priv_port connected_example = Some (PortInt 80)"
    by (simp_all add: connected_example_eq)
  from get_request_url [OF fields, of "''sessions/abc/players''" not_found_server
      LavalinkError_from_payload]
  obtain rq sep where
    "get_request connected_example ''sessions/abc/players'' = Inr rq"
    "req_method rq = ''GET''"
    "req_headers rq =
       [(''Authorization'', ''p''), (''User-Id'', ''1''), (''Client-Name'', ''lava.py/0.0.0'')]"
    "req_url rq = ''https://h:80/v3/sessions/abc/players'' @ sep @ ''trace=true''"
    "length sep = 1"
    by (auto simp: str_int_80)
  then show ?thesis by blast
qed

text \<open>
  The claim as first stated, with nothing after the path, fails: for the path \<^verbatim>\<open>x\<close> the
  request goes to \<^verbatim>\<open>https://h:80/v3/x&trace=true\<close>, not to \<^verbatim>\<open>https://h:80/v3/x\<close>.
\<close>

theorem get_request_url_counterexample:
  "get_request connected_example ''x'' =
     Inr \<lparr>req_method = ''GET'', req_url = ''https://h:80/v3/x&trace=true'',
          req_headers = [(''Authorization'', ''p''), (''User-Id'', ''1''),
                         (''Client-Name'', ''lava.py/0.0.0'')]\<rparr>
   \<and> get_request connected_example ''x'' \<noteq>
     Inr \<lparr>req_method = ''GET'', req_url = ''https://h:80/v3/x'',
          req_headers = [(''Authorization'', ''p''), (''User-Id'', ''1''),
                         (''Client-Name'', ''lava.py/0.0.0'')]\<rparr>"
  by (simp add: connected_example_eq get_request_def session_def is_ssl_def host_def
      port_def str_int_80)

section \<open>REST results\<close>

text \<open>
  What \<^verbatim>\<open>get\<close> returns once the request is made and the body decoded: on a status below
  400 the body; on any other status, when the error factory returns, the
  \<^verbatim>\<open>ClientResponseError\<close> of \<^verbatim>\<open>raise_for_status\<close>.
\<close>

lemma get_not_ok:
  "get_request s path = Inr rq \<Longrightarrow> http rq = Inr res \<Longrightarrow> res_json res = Inr data \<Longrightarrow>
   \<not> res_ok res \<Longrightarrow> error_from_payload data = Inr exc \<Longrightarrow>
   get http error_from_payload s path = Inl (ClientResponseError (res_status res))"
  by (simp add: get_def raise_for_status_def)

lemma get_ok:
  "get_request s path = Inr rq \<Longrightarrow> http rq = Inr res \<Longrightarrow> res_json res = Inr data \<Longrightarrow>
   res_ok res \<Longrightarrow> get http error_from_payload s path = Inr data"
  by (simp add: get_def)

text \<open>
  C6 at a 404 answer with a JSON body: \<^verbatim>\<open>get\<close> raises aiohttp's
  \<^verbatim>\<open>ClientResponseError\<close>, not the domain error built from the body.
\<close>

theorem get_404_raises_client_response_error:
  "get not_found_server LavalinkError_from_payload connected_example ''sessions/abc/players'' =
     Inl (ClientResponseError 404)
   \<and> get not_found_server LavalinkError_from_payload connected_example ''sessions/abc/players'' \<noteq>
     Inl (LavalinkError (JObj [(''error'', JStr ''Not Found'')]))"
  by (simp add: get_def get_request_def session_def is_ssl_def host_def port_def
      connected_example_eq not_found_server_def LavalinkError_from_payload_def res_ok_def
      raise_for_status_def)

lemma decode_all_Inr_iff:
  "(decode_all f ps = Inr xs) = (map f ps = map Inr xs)"
proof (induction ps arbitrary: xs)
  case Nil
  show ?case by auto
next
  case (Cons p ps)
  show ?case
  proof (cases "f p")
    case (Inl e)
    then show ?thesis by (cases xs) auto
  next
    case (Inr x)
    show ?thesis
    proof (cases "decode_all f ps")
      case l: (Inl e)
      have "map f ps \<noteq> map Inr ys" for ys
        using Cons.IH [of ys] l by simp
      with Inr l show ?thesis by (cases xs) auto
    next
      case r: (Inr ys)
      then have "map f ps = map Inr ys" using Cons.IH [of ys] by simp
      with Inr r show ?thesis by (cases xs) (auto simp: inj_map_eq_map)
    qed
  qed
qed

text \<open>
  C7 (as amended). \<^verbatim>\<open>get_players(session_id)\<close> calls
  \<^verbatim>\<open>get("sessions/{session_id}/players")\<close>; when that fails the call fails with the same
  error; when it returns a JSON array the call returns a list exactly when every element
  decodes, and the list then holds the decoded elements one for one in the array's
  order; when an element of the array does not decode the whole call fails.
\<close>

theorem get_players_decodes_array_in_order:
  "(get http error_from_payload s (''sessions/'' @ session_id @ ''/players'') = Inl e \<longrightarrow>
      get_players http error_from_payload player_from_payload s session_id = Inl e)
   \<and> (get http error_from_payload s (''sessions/'' @ session_id @ ''/players'') = Inr (JArr ps) \<longrightarrow>
        (get_players http error_from_payload player_from_payload s session_id = Inr xs)
          = (map player_from_payload ps = map Inr xs))
   \<and> (get http error_from_payload s (''sessions/'' @ session_id @ ''/players'') = Inr (JArr ps)
        \<and> p \<in> set ps \<and> player_from_payload p = Inl e' \<longrightarrow>
        isl (get_players http error_from_payload player_from_payload s session_id))"
proof -
  have a: "get http error_from_payload s (''sessions/'' @ session_id @ ''/players'') = Inl e \<longrightarrow>
      get_players http error_from_payload player_from_payload s session_id = Inl e"
    by (simp add: get_players_def)
  have b: "get_players http error_from_payload player_from_payload s session_id 
             = decode_all player_from_payload ps"
    if "get http error_from_payload s (''sessions/'' @ session_id @ ''/players'') = Inr (JArr ps)"
    using that by (simp add: get_players_def py_iter_def)
  have c: "isl (decode_all player_from_payload ps)"
    if "p \<in> set ps" "player_from_payload p = Inl e'"
  proof (cases "decode_all player_from_payload ps")
    case (Inl e)
    then show ?thesis by simp
  next
    case (Inr ys)
    then have "map player_from_payload ps = map Inr ys" by (simp add: decode_all_Inr_iff)
    then have "player_from_payload p \<in> set (map Inr ys)" using that(1) by (metis image_eqI set_map)
    with that(2) show ?thesis by auto
  qed
  from a b c show ?thesis by (auto simp: decode_all_Inr_iff)
qed

text \<open>
  The theorem at an array of two players (two results, in order), at a 404 answer (the
  error of \<^verbatim>\<open>get\<close>) and at an array whose second player does not decode (no result).
\<close>

theorem get_players_decodes_array_in_order_witness:
  "get_players players_array_server LavalinkError_from_payload sample_player_from_payload
       connected_example ''abc'' = Inr [''1'', ''2'']
   \<and> get_players not_found_server LavalinkError_from_payload sample_player_from_payload
       connected_example ''abc'' = Inl (ClientResponseError 404)
   \<and> isl (get_players players_mixed_server LavalinkError_from_payload sample_player_from_payload
            connected_example ''abc'')"
proof -
  have 1: "get_players players_array_server LavalinkError_from_payload sample_player_from_payload
       connected_example ''abc'' = Inr [''1'', ''2'']"
    using get_players_decodes_array_in_order
          [of players_array_server LavalinkError_from_payload connected_example "''abc''"
              "ExternalError ''unused''" sample_player_from_payload
              "[JObj [(''guildId'', JStr ''1'')], JObj [(''guildId'', JStr ''2'')]]"
              "[''1'', ''2'']" "JNull" "ExternalError ''unused''"]
    by (simp add: get_array_example sample_player_examples)
  have 2: "get_players not_found_server LavalinkError_from_payload sample_player_from_payload
       connected_example ''abc'' = Inl (ClientResponseError 404)"
    using get_players_decodes_array_in_order
          [of not_found_server LavalinkError_from_payload connected_example "''abc''"
              "ClientResponseError 404" sample_player_from_payload
              "[]" "[]" "JNull" "ExternalError ''unused''"]
    by (simp add: get_404_example)
  have 3: "isl (get_players players_mixed_server LavalinkError_from_payload
            sample_player_from_payload connected_example ''abc'')"
    using get_players_decodes_array_in_order
          [of players_mixed_server LavalinkError_from_payload connected_example "''abc''"
              "ExternalError ''unused''" sample_player_from_payload
              "[JObj [(''guildId'', JStr ''1'')], JObj [(''guildId'', JInt 2)]]"
              "[]" "JObj [(''guildId'', JInt 2)]" "ExternalError ''guildId''"]
    by (simp add: get_mixed_example sample_player_examples)
  from 1 2 3 show ?thesis by simp
qed

text \<open>
  The claim as first stated fails on a body of the shape \<^verbatim>\<open>{"players": [..., ...]}\<close>:
  iterating a dict yields its keys, so the decoder is called once, on the string
  \<^verbatim>\<open>players\<close>. With a decoder that accepts everything the result has that one element;
  with one that reads \<^verbatim>\<open>guildId\<close> the call fails.
\<close>

theorem get_players_object_body_counterexample:
  "get_players players_object_server LavalinkError_from_payload Inr connected_example ''abc'' =
     Inr [JStr ''players'']
   \<and> get_players players_object_server LavalinkError_from_payload Inr connected_example ''abc'' \<noteq>
     Inr [JObj [(''guildId'', JStr ''1'')], JObj [(''guildId'', JStr ''2'')]]
   \<and> get_players players_object_server LavalinkError_from_payload sample_player_from_payload
       connected_example ''abc'' = Inl (TypeError ''string indices must be integers'')"
  by (simp add: get_players_def py_iter_def sample_player_from_payload_def py_getitem_def
      get_def get_request_def session_def is_ssl_def host_def port_def
      connected_example_eq players_object_server_def res_ok_def)

end
